theory Spec2Isabelle
  imports Main
begin

section \<open>Strings and regular expressions as the code uses them\<close>

text \<open>
  The TypeScript sources work on JavaScript strings. They are modelled as \<open>string\<close>;
  every string the functions below inspect is compared with ASCII literals only.
  Calls to \<open>tl.debug\<close> only write to the task log and are left out of the model.
\<close>

text \<open>\<open>s.startsWith(p)\<close>.\<close>

definition startsWith :: "string \<Rightarrow> string \<Rightarrow> bool" where
  "startsWith s p = (take (length p) s = p)"

text \<open>
  The three regular expressions of \<open>oc-install.ts\<close> are built from literal characters,
  the digit class (\<open>\d\<close>, \<open>[0-9]\<close>), the dot, \<open>+\<close>, \<open>*\<close>, sequencing and the
  lookahead \<open>(?=...)\<close>.
\<close>

datatype regex =
    Lit char
  | Digit
  | AnyChar
  | Seq regex regex
  | Star regex
  | Ahead regex

text \<open>\<open>r+\<close> is one \<open>r\<close> followed by \<open>r*\<close>.\<close>

definition Plus :: "regex \<Rightarrow> regex" where
  "Plus r = Seq r (Star r)"

definition isDigit :: "char \<Rightarrow> bool" where
  "isDigit c = (c \<in> set ''0123456789'')"

text \<open>The dot matches every character but a line terminator.\<close>

definition isLineTerminator :: "char \<Rightarrow> bool" where
  "isLineTerminator c = (c = CHR 0x0A \<or> c = CHR 0x0D)"

text \<open>
  \<open>rmatch r s\<close> is the backtracking matcher of JavaScript started at the head of \<open>s\<close>:
  it lists what is left of \<open>s\<close> after each way \<open>r\<close> can match, in the order the
  engine tries them (greedy quantifiers take the longest repetition first). An
  iteration of \<open>*\<close> that consumes nothing is rejected, as the language definition
  says; a lookahead consumes nothing and is not re-entered on backtracking.
\<close>

fun rmatch :: "regex \<Rightarrow> string \<Rightarrow> string list" where
  "rmatch (Lit c) s = (case s of [] \<Rightarrow> [] | x # xs \<Rightarrow> if x = c then [xs] else [])"
| "rmatch Digit s = (case s of [] \<Rightarrow> [] | x # xs \<Rightarrow> if isDigit x then [xs] else [])"
| "rmatch AnyChar s =
     (case s of [] \<Rightarrow> [] | x # xs \<Rightarrow> if isLineTerminator x then [] else [xs])"
| "rmatch (Seq a b) s = concat (map (rmatch b) (rmatch a s))"
| "rmatch (Star a) s =
     concat (map (\<lambda>r. if length r < length s then rmatch (Star a) r else []) (rmatch a s))
       @ [s]"
| "rmatch (Ahead a) s = (if rmatch a s = [] then [] else [s])"

text \<open>
  \<open>new RegExp(r).exec(s)\<close> for a regular expression without flags: the match is tried
  at every start position from the left, and element \<open>[0]\<close> of the result, the
  matched text, is all the callers read. \<open>None\<close> is the \<open>null\<close> of no match.
\<close>

fun exec :: "regex \<Rightarrow> string \<Rightarrow> string option" where
  "exec r s =
     (case rmatch r s of
        rest # _ \<Rightarrow> Some (take (length s - length rest) s)
      | [] \<Rightarrow> (case s of [] \<Rightarrow> None | _ # xs \<Rightarrow> exec r xs))"

text \<open>
  Unary \<open>+\<close> on a string of decimal digits. The code compares the result with 3 and
  4 only; a double equals 3 (or 4) exactly when the digits denote 3 (or 4), so a
  natural number stands for the JavaScript number here.
\<close>

definition digitVal :: "char \<Rightarrow> nat" where
  "digitVal c = of_char c - 48"

definition toNumber :: "string \<Rightarrow> nat" where
  "toNumber ds = foldl (\<lambda>n c. 10 * n + digitVal c) 0 ds"

text \<open>
  A value spliced into a template literal; a property that is missing reads
  \<open>undefined\<close> and is spliced as that word.
\<close>

definition tpl :: "string option \<Rightarrow> string" where
  "tpl v = (case v of None \<Rightarrow> ''undefined'' | Some s \<Rightarrow> s)"

text \<open>
  A value that is falsy (\<open>null\<close>, \<open>undefined\<close> or the empty string) reads as
  \<open>None\<close>.
\<close>

definition truthy :: "string option \<Rightarrow> string option" where
  "truthy v = (case v of None \<Rightarrow> None | Some s \<Rightarrow> if s = [] then None else Some s)"

section \<open>Constants and the bundled JSON resource\<close>

text \<open>
  \<open>constants.ts\<close> exports the directory and archive names; their values are
  parameters of the model.
\<close>

record constants =
  LINUX :: string
  OC_TAR_GZ :: string
  MACOSX :: string
  WIN :: string
  OC_ZIP :: string
  LATEST :: string

text \<open>
  \<open>getOcUtils\<close> parses \<open>oc-utils.json\<close> into an object from property names to
  strings: the two base URLs and one entry \<open>oc<major>.<minor>\<close> per known line.
\<close>

type_synonym ocUtils = "string \<rightharpoonup> string"

definition openshiftV3BaseUrl :: "ocUtils \<Rightarrow> string" where
  "openshiftV3BaseUrl U = tpl (U ''openshiftV3BaseUrl'')"

definition openshiftV4BaseUrl :: "ocUtils \<Rightarrow> string" where
  "openshiftV4BaseUrl U = tpl (U ''openshiftV4BaseUrl'')"

section \<open>Version resolution\<close>

text \<open>\<open>InstallHandler.getOcBundleByOS\<close>: the \<open>switch\<close> over the OS type.\<close>

definition getOcBundleByOS :: "constants \<Rightarrow> string \<Rightarrow> string option" where
  "getOcBundleByOS C osType =
     (if osType = ''Linux'' then Some (LINUX C @ ''/'' @ OC_TAR_GZ C)
      else if osType = ''Darwin'' then Some (MACOSX C @ ''/'' @ OC_TAR_GZ C)
      else if osType = ''Windows_NT'' then Some (WIN C @ ''/'' @ OC_ZIP C)
      else None)"

text \<open>\<open>InstallHandler.latestStable\<close>.\<close>

definition latestStable :: "ocUtils \<Rightarrow> constants \<Rightarrow> string \<Rightarrow> string option" where
  "latestStable U C osType =
     (case truthy (getOcBundleByOS C osType) of
        None \<Rightarrow> None
      | Some bundle \<Rightarrow> Some (openshiftV4BaseUrl U @ ''/'' @ LATEST C @ ''/'' @ bundle))"

text \<open>The regular expression \<open>\d+(?=\.)\<close> that finds the major version.\<close>

definition reMajor :: regex where
  "reMajor = Seq (Plus Digit) (Ahead (Lit CHR ''.''))"

text \<open>The regular expression \<open>\d+\.\d+(?=\.)*\<close> that finds \<open>major.minor\<close>.\<close>

definition reBase :: regex where
  "reBase =
     Seq (Plus Digit) (Seq (Lit CHR ''.'') (Seq (Plus Digit) (Star (Ahead (Lit CHR ''.'')))))"

text \<open>Lines 126 to 128: one leading \<open>v\<close> is removed.\<close>

definition stripV :: "string \<Rightarrow> string" where
  "stripV version = (if startsWith version ''v'' then drop 1 version else version)"

text \<open>Lines 132 to 138: the major version, \<open>None\<close> where the code returns \<open>null\<close>.\<close>

definition vMajorOf :: "string \<Rightarrow> nat option" where
  "vMajorOf version = map_option toNumber (exec reMajor version)"

text \<open>Lines 143 to 151: the \<open>major.minor\<close> of the version, \<open>None\<close> where none is found.\<close>

definition baseVersionOf :: "string \<Rightarrow> string option" where
  "baseVersionOf version = exec reBase version"

text \<open>
  Lines 142 to 157: the version that goes into the URL. Without \<open>latest\<close> it is the
  version as it stands; with \<open>latest\<close> it is the entry \<open>oc<major.minor>\<close> of the
  table, and \<open>None\<close> where the code returns \<open>null\<close>: no \<open>major.minor\<close> found, or
  the entry missing or empty (both are falsy).
\<close>

definition latestPatch :: "ocUtils \<Rightarrow> string \<Rightarrow> string option" where
  "latestPatch U version =
     (case baseVersionOf version of
        None \<Rightarrow> None
      | Some baseVersion \<Rightarrow> truthy (U (''oc'' @ baseVersion)))"

text \<open>
  \<open>InstallHandler.ocBundleURL\<close>. An omitted \<open>latest\<close> is \<open>undefined\<close>, which the
  code treats as \<open>false\<close>.
\<close>

definition ocBundleURL :: "ocUtils \<Rightarrow> constants \<Rightarrow> string \<Rightarrow> string \<Rightarrow> bool \<Rightarrow> string option" where
  "ocBundleURL U C version0 osType latest =
     (if version0 = [] then None
      else
        let version = stripV version0 in
        case vMajorOf version of
          None \<Rightarrow> None
        | Some vMajor \<Rightarrow>
            (case (if latest then latestPatch U version else Some version) of
               None \<Rightarrow> None
             | Some version' \<Rightarrow>
                 (case (if vMajor = 3 then Some (openshiftV3BaseUrl U @ ''/'' @ version' @ ''/'')
                        else if vMajor = 4 then Some (openshiftV4BaseUrl U @ ''/'' @ version' @ ''/'')
                        else None) of
                    None \<Rightarrow> None
                  | Some url \<Rightarrow>
                      (case truthy (getOcBundleByOS C osType) of
                         None \<Rightarrow> None
                       | Some bundle \<Rightarrow> Some (url @ bundle)))))"

section \<open>The build agent\<close>

text \<open>
  The install flow talks to the file system, to external tools and to the network
  through \<open>azure-pipelines-task-lib\<close>, \<open>fs\<close>, \<open>path\<close>, \<open>valid-url\<close>,
  \<open>node-fetch\<close>, \<open>utils.unzipArchive\<close> and \<open>RunnerHandler.execOcSync\<close>. None of
  them is part of the sources at hand, so they are the fields of a record the model
  takes as a parameter, over a type \<open>'w\<close> of states of the agent's file system. An
  operation that can throw returns the message (\<open>Some\<close>) together with the file
  system it leaves behind.
\<close>

record execResult =
  stdout :: "string option"
  stderr :: "string option"

record 'w platform =
  path_normalize :: "string \<Rightarrow> string"
  path_join :: "string \<Rightarrow> string \<Rightarrow> string"
  path_extname :: "string \<Rightarrow> string"
  isWebUri :: "string \<Rightarrow> bool"
  env_SYSTEM_DEFAULTWORKINGDIRECTORY :: "string option"
  tl_exist :: "'w \<Rightarrow> string \<Rightarrow> bool"
  fs_existsSync :: "'w \<Rightarrow> string \<Rightarrow> bool"
  tl_which :: "'w \<Rightarrow> string \<Rightarrow> string option"
  execOcSync :: "'w \<Rightarrow> string \<Rightarrow> string \<Rightarrow> execResult option"
  fetch_head :: "string option \<Rightarrow> string + bool"
  tl_mkdirP :: "string \<Rightarrow> 'w \<Rightarrow> string option \<times> 'w"
  tool_exec :: "string \<Rightarrow> string list \<Rightarrow> 'w \<Rightarrow> string option \<times> 'w"
  unzipArchive :: "string \<Rightarrow> string \<Rightarrow> string \<Rightarrow> 'w \<Rightarrow> string option \<times> 'w"
  fs_chmodSync :: "string \<Rightarrow> string \<Rightarrow> 'w \<Rightarrow> string option \<times> 'w"

text \<open>
  \<open>tl_which\<close> is \<open>tl.which(tool, true)\<close>, \<open>None\<close> where it throws;
  \<open>fetch_head\<close> is \<open>fetch(url, {method: 'HEAD'})\<close>, \<open>Inl\<close> where the promise
  rejects and \<open>Inr\<close> of \<open>response.ok\<close> otherwise; the answer of the network does
  not depend on the agent's file system.

  Every call the code makes to one of these operations is recorded, with its
  arguments, in a trace, and so is every call of \<open>ocBundleURL\<close> made by
  \<open>installOc\<close>.
\<close>

datatype event =
    Exist string
  | ExistsSync string
  | Which string
  | ExecOcSync string string
  | FetchHead "string option"
  | MkdirP string
  | ToolExec string "string list"
  | UnzipArchive string string string
  | ChmodSync string string
  | OcBundleURL string string bool

record 'w state =
  world :: 'w
  trace :: "event list"

text \<open>A call that only reads the file system, and a call that may change it or throw.\<close>

definition query :: "event \<Rightarrow> ('w \<Rightarrow> 'a) \<Rightarrow> 'w state \<Rightarrow> 'a \<times> 'w state" where
  "query ev f s = (f (world s), s\<lparr>trace := trace s @ [ev]\<rparr>)"

definition effect ::
  "event \<Rightarrow> ('w \<Rightarrow> string option \<times> 'w) \<Rightarrow> 'w state \<Rightarrow> string option \<times> 'w state" where
  "effect ev f s =
     (case f (world s) of (err, w) \<Rightarrow> (err, \<lparr>world = w, trace = trace s @ [ev]\<rparr>))"

text \<open>
  An \<open>async\<close> function ends in a rejected promise, with the message of the error, or
  in a resolved one.
\<close>

datatype 'a outcome = Rejected string | Resolved 'a

section \<open>Download and extraction\<close>

text \<open>\<open>s.split(sep)\<close> for a separator of one character.\<close>

fun split :: "char \<Rightarrow> string \<Rightarrow> string list" where
  "split sep [] = [[]]"
| "split sep (c # cs) =
     (if c = sep then [] # split sep cs
      else (case split sep cs of [] \<Rightarrow> [[c]] | p # ps \<Rightarrow> (c # p) # ps))"

text \<open>
  \<open>s.replace(pat, rep)\<close> for a string pattern: the first occurrence only.
\<close>

fun replaceFirst :: "string \<Rightarrow> string \<Rightarrow> string \<Rightarrow> string" where
  "replaceFirst pat rep s =
     (if startsWith s pat then rep @ drop (length pat) s
      else (case s of [] \<Rightarrow> [] | c # cs \<Rightarrow> c # replaceFirst pat rep cs))"

text \<open>Lines 230 and 231: the archive name is the last part of the URL.\<close>

definition archiveOf :: "string \<Rightarrow> string" where
  "archiveOf url = last (split CHR ''/'' url)"

text \<open>Lines 236 to 242: the arguments handed to \<open>curl\<close>.\<close>

definition curlArgs :: "string \<Rightarrow> string \<Rightarrow> string \<Rightarrow> string list" where
  "curlArgs proxy archivePath url =
     [''-s''] @ (if proxy \<noteq> [] then [''-x'', proxy] else []) @ [''-L'', ''-o'', archivePath, url]"

text \<open>Lines 246 to 252: the archive type, with \<open>.tar.gz\<close> handled explicitly.\<close>

definition archiveTypeOf :: "'w platform \<Rightarrow> string \<Rightarrow> string" where
  "archiveTypeOf P archive =
     (let archiveType = path_extname P archive;
          expandDir = replaceFirst archiveType [] archive
      in if path_extname P expandDir = ''.tar'' then ''.tar.gz'' else archiveType)"

text \<open>Lines 258 to 267: the name of the executable.\<close>

definition ocBinaryName :: "string \<Rightarrow> string" where
  "ocBinaryName osType = (if osType = ''Windows_NT'' then ''oc.exe'' else ''oc'')"

text \<open>\<open>InstallHandler.downloadAndExtract\<close>; \<open>Resolved None\<close> is the \<open>null\<close> result.\<close>

definition downloadAndExtract ::
  "'w platform \<Rightarrow> string \<Rightarrow> string \<Rightarrow> string \<Rightarrow> string \<Rightarrow> 'w state
     \<Rightarrow> string option outcome \<times> 'w state" where
  "downloadAndExtract P url downloadDir0 osType proxy s =
     (if url = [] then (Resolved None, s)
      else
        let downloadDir = path_normalize P downloadDir0 in
        case query (Exist downloadDir) (\<lambda>w. tl_exist P w downloadDir) s of
          (dirExists, s1) \<Rightarrow>
        if \<not> dirExists then (Rejected (downloadDir @ '' does not exist.''), s1)
        else
          let archive = archiveOf url;
              archivePath = path_join P downloadDir archive in
          case query (Exist archivePath) (\<lambda>w. tl_exist P w archivePath) s1 of
            (archiveExists, s2) \<Rightarrow>
          case (if \<not> archiveExists
                then effect (ToolExec ''curl'' (curlArgs proxy archivePath url))
                       (tool_exec P ''curl'' (curlArgs proxy archivePath url)) s2
                else (None, s2)) of
            (Some e, s3) \<Rightarrow> (Rejected e, s3)
          | (None, s3) \<Rightarrow>
              let archiveType = archiveTypeOf P archive in
              (case effect (UnzipArchive archiveType archivePath downloadDir)
                      (unzipArchive P archiveType archivePath downloadDir) s3 of
                 (Some e, s4) \<Rightarrow> (Rejected e, s4)
               | (None, s4) \<Rightarrow>
                   let ocBinary = path_join P downloadDir (ocBinaryName osType) in
                   (case query (Exist ocBinary) (\<lambda>w. tl_exist P w ocBinary) s4 of
                      (binaryExists, s5) \<Rightarrow>
                    if \<not> binaryExists then (Resolved None, s5)
                    else
                      (case effect (ChmodSync ocBinary ''0755'')
                              (fs_chmodSync P ocBinary ''0755'') s5 of
                         (Some e, s6) \<Rightarrow> (Rejected e, s6)
                       | (None, s6) \<Rightarrow> (Resolved (Some ocBinary), s6)))))"

section \<open>Installation\<close>

text \<open>The regular expression \<open>v[0-9]+.[0-9]+.[0-9]+\<close> of \<open>getOcVersion\<close>.\<close>

definition reVersion :: regex where
  "reVersion =
     Seq (Lit CHR ''v'') (Seq (Plus Digit) (Seq AnyChar (Seq (Plus Digit)
       (Seq AnyChar (Plus Digit)))))"

text \<open>\<open>s.toLowerCase()\<close>, on ASCII letters.\<close>

definition toLowerCase :: "string \<Rightarrow> string" where
  "toLowerCase s =
     map (\<lambda>c. if c \<in> set ''ABCDEFGHIJKLMNOPQRSTUVWXYZ''
               then char_of (of_char c + (32::nat)) else c) s"

text \<open>
  \<open>InstallHandler.getOcVersion\<close>. The first call of \<open>oc version\<close> has failed when it
  gave no result or wrote to the error stream; then the plain \<open>oc version\<close> is run.
\<close>

definition getOcVersion :: "'w platform \<Rightarrow> string \<Rightarrow> 'w state \<Rightarrow> string option \<times> 'w state" where
  "getOcVersion P ocPath s =
     (case query (ExecOcSync ocPath ''version --short=true --client=true'')
             (\<lambda>w. execOcSync P w ocPath ''version --short=true --client=true'') s of
        (result0, s1) \<Rightarrow>
      case (if (case result0 of None \<Rightarrow> True | Some r \<Rightarrow> truthy (stderr r) \<noteq> None)
            then query (ExecOcSync ocPath ''version'')
                   (\<lambda>w. execOcSync P w ocPath ''version'') s1
            else (result0, s1)) of
        (result, s2) \<Rightarrow>
      (case result of
         None \<Rightarrow> (None, s2)
       | Some r \<Rightarrow>
           (case truthy (stdout r) of
              None \<Rightarrow> (None, s2)
            | Some out \<Rightarrow> (exec reVersion out, s2))))"

text \<open>
  \<open>InstallHandler.getLocalOcPath\<close>; the result is \<open>None\<close> where the code returns
  \<open>undefined\<close>.
\<close>

definition getLocalOcPath :: "'w platform \<Rightarrow> string \<Rightarrow> 'w state \<Rightarrow> string option \<times> 'w state" where
  "getLocalOcPath P version s =
     (case query (Which ''oc'') (\<lambda>w. tl_which P w ''oc'') s of
        (ocPath, s1) \<Rightarrow>
      (case (if version \<noteq> [] then truthy ocPath else None) of
         None \<Rightarrow> (ocPath, s1)
       | Some p \<Rightarrow>
           (case getOcVersion P p s1 of
              (localOcVersion, s2) \<Rightarrow>
            (case truthy localOcVersion of
               None \<Rightarrow> (None, s2)
             | Some v \<Rightarrow>
                 if toLowerCase v \<noteq> toLowerCase version then (None, s2)
                 else (ocPath, s2)))))"

text \<open>
  Lines 57 to 69 of \<open>installOc\<close>: the URL to download from. A version that is a web
  URI is the URL; otherwise the URL of the version is probed, and replaced where
  the response is not OK.
\<close>

definition determineUrl ::
  "'w platform \<Rightarrow> ocUtils \<Rightarrow> constants \<Rightarrow> string \<Rightarrow> string \<Rightarrow> 'w state
     \<Rightarrow> string option outcome \<times> 'w state" where
  "determineUrl P U C downloadVersion osType s =
     (if isWebUri P downloadVersion then (Resolved (Some downloadVersion), s)
      else
        case query (OcBundleURL downloadVersion osType False)
               (\<lambda>w. ocBundleURL U C downloadVersion osType False) s of
          (url, s1) \<Rightarrow>
        case query (FetchHead url) (\<lambda>w. fetch_head P url) s1 of
          (Inl e, s2) \<Rightarrow> (Rejected e, s2)
        | (Inr ok, s2) \<Rightarrow>
            if \<not> ok
            then (case query (OcBundleURL downloadVersion osType True)
                         (\<lambda>w. ocBundleURL U C downloadVersion osType True) s2 of
                    (url', s3) \<Rightarrow> (Resolved url', s3))
            else (Resolved url, s2))"

text \<open>\<open>InstallHandler.installOc\<close>.\<close>

definition installOc ::
  "'w platform \<Rightarrow> ocUtils \<Rightarrow> constants \<Rightarrow> string \<Rightarrow> string \<Rightarrow> bool \<Rightarrow> string \<Rightarrow> 'w state
     \<Rightarrow> string outcome \<times> 'w state" where
  "installOc P U C downloadVersion0 osType useLocalOc proxy s =
     (case (if useLocalOc then getLocalOcPath P downloadVersion0 s else (None, s)) of
        (localOcPath, s1) \<Rightarrow>
      (case truthy localOcPath of
         Some p \<Rightarrow> (Resolved p, s1)
       | None \<Rightarrow>
           (case (if downloadVersion0 = [] then latestStable U C osType
                  else Some downloadVersion0) of
              None \<Rightarrow> (Rejected ''Unable to determine latest oc download URL'', s1)
            | Some downloadVersion \<Rightarrow>
                let downloadDir = tpl (env_SYSTEM_DEFAULTWORKINGDIRECTORY P) @ ''/.download'' in
                case query (ExistsSync downloadDir) (\<lambda>w. fs_existsSync P w downloadDir) s1 of
                  (dirExists, s2) \<Rightarrow>
                case (if \<not> dirExists
                      then effect (MkdirP downloadDir) (tl_mkdirP P downloadDir) s2
                      else (None, s2)) of
                  (Some e, s3) \<Rightarrow> (Rejected e, s3)
                | (None, s3) \<Rightarrow>
                    (case determineUrl P U C downloadVersion osType s3 of
                       (Rejected e, s4) \<Rightarrow> (Rejected e, s4)
                     | (Resolved None, s4) \<Rightarrow>
                         (Rejected ''Unable to determine oc download URL.'', s4)
                     | (Resolved (Some url), s4) \<Rightarrow>
                         (case downloadAndExtract P url downloadDir osType proxy s4 of
                            (Rejected e, s5) \<Rightarrow> (Rejected e, s5)
                          | (Resolved None, s5) \<Rightarrow>
                              (Rejected ''Unable to download or extract oc binary.'', s5)
                          | (Resolved (Some ocBinary), s5) \<Rightarrow> (Resolved ocBinary, s5))))))"

text \<open>
  The events of a trace that concern the choice of the URL: the calls of
  \<open>ocBundleURL\<close> and the HEAD probes.
\<close>

fun isUrlEvent :: "event \<Rightarrow> bool" where
  "isUrlEvent (FetchHead _) = True"
| "isUrlEvent (OcBundleURL _ _ _) = True"
| "isUrlEvent _ = False"

definition urlEvents :: "event list \<Rightarrow> event list" where
  "urlEvents tr = filter isUrlEvent tr"

text \<open>The events of a trace that are runs of an external tool.\<close>

fun isToolExec :: "event \<Rightarrow> bool" where
  "isToolExec (ToolExec _ _) = True"
| "isToolExec _ = False"

definition toolEvents :: "event list \<Rightarrow> event list" where
  "toolEvents tr = filter isToolExec tr"

section \<open>The ConfigMap patch command\<close>

text \<open>
  Modelled from the spec: \<open>src/config-map.ts\<close> (the class \<open>ConfigMap\<close>, its
  constructor and \<open>patchCmd\<close>) is not among the sources, only its test is. A
  PatchSpec is the resource name with the ordered key/value pairs.
\<close>

record ConfigMap =
  name :: string
  properties :: "(string \<times> string) list"

text \<open>
  Modelled from the spec: the properties line is cut into tokens at white space; a
  token delimited by double quotes may contain white space and loses the quotes.
\<close>

definition isSpace :: "char \<Rightarrow> bool" where
  "isSpace c = (c = CHR '' '' \<or> c = CHR 0x09 \<or> c = CHR 0x0A \<or> c = CHR 0x0D)"

text \<open>
  Modelled from the spec: the scanner is outside a token, inside a plain token or
  inside a quoted one; \<open>cur\<close> holds the characters of the token read so far, last
  first.
\<close>

datatype scanMode = Outside | Word | Quoted

fun scan :: "scanMode \<Rightarrow> string \<Rightarrow> string \<Rightarrow> string list" where
  "scan Outside cur [] = []"
| "scan Word cur [] = [rev cur]"
| "scan Quoted cur [] = [rev cur]"
| "scan Outside cur (c # cs) =
     (if isSpace c then scan Outside [] cs
      else if c = CHR 0x22 then scan Quoted [] cs
      else scan Word [c] cs)"
| "scan Word cur (c # cs) =
     (if isSpace c then rev cur # scan Outside [] cs else scan Word (c # cur) cs)"
| "scan Quoted cur (c # cs) =
     (if c = CHR 0x22 then rev cur # scan Outside [] cs else scan Quoted (c # cur) cs)"

text \<open>Modelled from the spec: the tokens of a properties line.\<close>

definition tokenize :: "string \<Rightarrow> string list" where
  "tokenize line = scan Outside [] line"

text \<open>
  Modelled from the spec: the tokens are grouped as \<open>-key value\<close>, the key without
  its dash. The spec does not say what a key without a value yields; here it yields
  no pair.
\<close>

fun pairsOf :: "string list \<Rightarrow> (string \<times> string) list" where
  "pairsOf (k # v # rest) = ((if startsWith k ''-'' then drop 1 k else k), v) # pairsOf rest"
| "pairsOf _ = []"

text \<open>Modelled from the spec: the construction of a ConfigMap from a name and a properties line.\<close>

definition newConfigMap :: "string \<Rightarrow> string \<Rightarrow> ConfigMap" where
  "newConfigMap resourceName propertiesLine =
     \<lparr>name = resourceName, properties = pairsOf (tokenize propertiesLine)\<rparr>"

text \<open>Modelled from the spec: the serialised pairs are joined with a separator.\<close>

fun joinWith :: "string \<Rightarrow> string list \<Rightarrow> string" where
  "joinWith sep [] = []"
| "joinWith sep [x] = x"
| "joinWith sep (x # y # ys) = x @ sep @ joinWith sep (y # ys)"

text \<open>
  Modelled from the spec: \<open>patchCmd\<close> (\<open>buildPatchCommand\<close>). The pairs are
  serialised, in order, into the \<open>data\<close> object of a single-quoted payload after
  the prefix \<open>patch configmap <name> -p\<close>, each value with its \<open>${NAME}\<close> references
  interpolated against the environment; the layout of a pair is the one the test
  expects. The interpolation is the parameter \<open>interpolate\<close>. A namespace that is
  not empty is appended after \<open>-n\<close>.
\<close>

definition patchCmd :: "(string \<Rightarrow> string) \<Rightarrow> ConfigMap \<Rightarrow> string \<Rightarrow> string" where
  \<open>patchCmd interpolate cm namespace =
     ''patch configmap '' @ name cm @ '' -p \'{"data":{''
       @ joinWith '', '' (map (\<lambda>(k, v). ''"'' @ k @ ''": "'' @ interpolate v @ ''"'') (properties cm))
       @ ''}}'' @ [CHR 0x27]
       @ (if namespace = [] then [] else '' -n '' @ namespace)\<close>

section \<open>A sample agent\<close>

text \<open>
  Concrete values on which the functions are run: the constants and a table of the
  shape of \<open>oc-utils.json\<close>, and an agent whose file system is the list of the paths
  that exist. Its parameters are the names of the files in the archive, the path
  \<open>tl.which\<close> finds (if any), and the URLs that answer a HEAD probe with OK.
\<close>

definition sampleConstants :: constants where
  "sampleConstants =
     \<lparr>LINUX = ''linux'', OC_TAR_GZ = ''oc.tar.gz'', MACOSX = ''macosx'',
      WIN = ''windows'', OC_ZIP = ''oc.zip'', LATEST = ''latest''\<rparr>"

definition sampleUtils :: ocUtils where
  "sampleUtils =
     [''openshiftV3BaseUrl'' \<mapsto> ''https://mirror.example/v3/clients'',
      ''openshiftV4BaseUrl'' \<mapsto> ''https://mirror.example/v4/clients/oc'',
      ''oc3.11'' \<mapsto> ''3.11.153'']"

definition sampleExtname :: "string \<Rightarrow> string" where
  "sampleExtname p =
     (if CHR ''.'' \<in> set p then CHR ''.'' # rev (takeWhile (\<lambda>c. c \<noteq> CHR ''.'') (rev p))
      else [])"

definition samplePlatform ::
  "string list \<Rightarrow> string option \<Rightarrow> string list \<Rightarrow> string list platform" where
  "samplePlatform archiveContents localOc okUrls =
     \<lparr>path_normalize = (\<lambda>p. p),
      path_join = (\<lambda>a b. a @ ''/'' @ b),
      path_extname = sampleExtname,
      isWebUri = (\<lambda>u. startsWith u ''http://'' \<or> startsWith u ''https://''),
      env_SYSTEM_DEFAULTWORKINGDIRECTORY = Some ''/work'',
      tl_exist = (\<lambda>w p. p \<in> set w),
      fs_existsSync = (\<lambda>w p. p \<in> set w),
      tl_which = (\<lambda>w tool. localOc),
      execOcSync = (\<lambda>w ocPath args.
        Some \<lparr>stdout = Some ''Client Version: v3.11.0'', stderr = None\<rparr>),
      fetch_head = (\<lambda>url. case url of
          None \<Rightarrow> Inl ''Only absolute URLs are supported''
        | Some u \<Rightarrow> Inr (u \<in> set okUrls)),
      tl_mkdirP = (\<lambda>dir w. (None, dir # w)),
      tool_exec = (\<lambda>tool args w.
        (None, (if 2 \<le> length args then [args ! (length args - 2)] else []) @ w)),
      unzipArchive = (\<lambda>archiveType archivePath dir w.
        (None, map (\<lambda>f. dir @ ''/'' @ f) archiveContents @ w)),
      fs_chmodSync = (\<lambda>p mode w. (None, w))\<rparr>"

section \<open>Names used in the statements\<close>

abbreviation archivePathOf :: "'w platform \<Rightarrow> string \<Rightarrow> string \<Rightarrow> string" where
  "archivePathOf P downloadDir url \<equiv>
     path_join P (path_normalize P downloadDir) (archiveOf url)"

abbreviation ocBinaryOf :: "'w platform \<Rightarrow> string \<Rightarrow> string \<Rightarrow> string" where
  "ocBinaryOf P downloadDir osType \<equiv>
     path_join P (path_normalize P downloadDir) (ocBinaryName osType)"

abbreviation downloadDirOf :: "'w platform \<Rightarrow> string" where
  "downloadDirOf P \<equiv> tpl (env_SYSTEM_DEFAULTWORKINGDIRECTORY P) @ ''/.download''"

declare exec.simps [simp del]
declare replaceFirst.simps [simp del]

section \<open>What the regular expressions extract\<close>

text \<open>
  Every result of the matcher is a suffix of its input. A version without a dot has
  neither a major version nor a \<open>major.minor\<close>; in a version that starts with
  digits and a dot the major version is the number the digits denote, and in one
  that starts with digits, a dot and digits the \<open>major.minor\<close> is that prefix.
\<close>

lemma rmatch_Star_unfold:
  "rmatch (Star a) s =
     concat (map (\<lambda>r. if length r < length s then rmatch (Star a) r else []) (rmatch a s)) @ [s]"
  by (rule rmatch.simps(5))

lemma rmatch_suffix: "r' \<in> set (rmatch r s) \<Longrightarrow> \<exists>p. s = p @ r'"
proof (induction r s arbitrary: r' rule: rmatch.induct)
  case (1 c s)
  then show ?case by (cases s) (auto split: if_splits)
next
  case (2 s)
  then show ?case by (cases s) (auto split: if_splits)
next
  case (3 s)
  then show ?case by (cases s) (auto split: if_splits)
next
  case (4 a b s)
  from "4.prems" obtain m where m: "m \<in> set (rmatch a s)" "r' \<in> set (rmatch b m)"
    by auto
  from "4.IH"(1) [OF m(1)] obtain p1 where "s = p1 @ m" by blast
  moreover from "4.IH"(2) [OF m(1) m(2)] obtain p2 where "m = p2 @ r'" by blast
  ultimately have "s = (p1 @ p2) @ r'" by simp
  then show ?case by blast
next
  case (5 a s)
  from "5.prems" have "r' \<in> set (concat (map (\<lambda>r. if length r < length s
      then rmatch (Star a) r else []) (rmatch a s)) @ [s])"
    by (simp only: rmatch_Star_unfold [of a s])
  then consider "r' = s"
    | m where "m \<in> set (rmatch a s)" "length m < length s" "r' \<in> set (rmatch (Star a) m)"
    by (auto simp del: rmatch.simps split: if_splits)
  then show ?case
  proof cases
    case 1
    then show ?thesis by simp
  next
    case 2
    from "5.IH"(1) [OF 2(1)] obtain p1 where "s = p1 @ m" by blast
    moreover from "5.IH"(2) [OF 2(1) 2(2) 2(3)] obtain p2 where "m = p2 @ r'" by blast
    ultimately have "s = (p1 @ p2) @ r'" by simp
    then show ?thesis by blast
  qed
next
  case (6 a s)
  then show ?case by (auto simp del: rmatch.simps(5) split: if_splits)
qed


lemma rmatch_no_dot:
  assumes "CHR ''.'' \<notin> set s"
  shows "rmatch reMajor s = []" and "rmatch reBase s = []"
proof -
  have tail: "rmatch (Lit CHR ''.'') m = []" if "m \<in> set (rmatch (Plus Digit) s)" for m
  proof -
    from rmatch_suffix [OF that] obtain p where "s = p @ m" by blast
    with assms have "CHR ''.'' \<notin> set m" by auto
    then show ?thesis by (cases m) auto
  qed
  have "rmatch (Seq (Plus Digit) (Ahead (Lit CHR ''.''))) s = []"
    using tail by (simp only: rmatch.simps(4) rmatch.simps(6)) simp
  then show "rmatch reMajor s = []"
    by (simp only: reMajor_def)
  have "rmatch (Seq (Plus Digit) (Seq (Lit CHR ''.'') b)) s = []" for b
    using tail by (simp only: rmatch.simps(4) [of _ _ s] rmatch.simps(4) [of "Lit CHR ''.''"]) simp
  then show "rmatch reBase s = []"
    by (simp only: reBase_def)
qed

lemma exec_no_dot:
  "CHR ''.'' \<notin> set s \<Longrightarrow> exec reMajor s = None \<and> exec reBase s = None"
proof (induction s)
  case Nil
  then show ?case
    using rmatch_no_dot [of "[]"] by (simp add: exec.simps [of _ "[]"])
next
  case (Cons c s)
  then show ?case
    using rmatch_no_dot [of "c # s"] by (simp add: exec.simps [of _ "c # s"])
qed


lemma rmatch_star_ahead: "rmatch (Star (Ahead a)) s = [s]"
  by (simp only: rmatch_Star_unfold [of "Ahead a" s] rmatch.simps(6)) simp

lemma rmatch_star_digits:
  assumes "\<forall>c \<in> set ds. isDigit c" and "case r of [] \<Rightarrow> True | c # _ \<Rightarrow> \<not> isDigit c"
  shows "\<exists>xs. rmatch (Star Digit) (ds @ r) = r # xs"
  using assms
proof (induction ds)
  case Nil
  have none: "rmatch Digit r = []"
    using Nil.prems(2) by (cases r) simp_all
  have "rmatch (Star Digit) r = [r]"
    by (simp only: rmatch_Star_unfold [of Digit r] none) simp
  then show ?case by (simp del: rmatch.simps)
next
  case (Cons d ds)
  then obtain xs where xs: "rmatch (Star Digit) (ds @ r) = r # xs" by auto
  have one: "rmatch Digit ((d # ds) @ r) = [ds @ r]"
    using Cons.prems(1) by simp
  have "rmatch (Star Digit) ((d # ds) @ r) = rmatch (Star Digit) (ds @ r) @ [(d # ds) @ r]"
    by (simp only: rmatch_Star_unfold [of Digit "(d # ds) @ r"] one) simp
  with xs show ?case by (simp del: rmatch.simps)
qed

lemma rmatch_plus_digits:
  assumes "ds \<noteq> []" and "\<forall>c \<in> set ds. isDigit c"
    and "case r of [] \<Rightarrow> True | c # _ \<Rightarrow> \<not> isDigit c"
  shows "\<exists>xs. rmatch (Plus Digit) (ds @ r) = r # xs"
proof -
  obtain d ds' where ds: "ds = d # ds'"
    using assms(1) by (cases ds) auto
  have one: "rmatch Digit (ds @ r) = [ds' @ r]"
    using ds assms(2) by simp
  have "rmatch (Plus Digit) (ds @ r) = rmatch (Star Digit) (ds' @ r)"
    by (simp only: Plus_def rmatch.simps(4) one) simp
  with rmatch_star_digits [of ds' r] assms(2,3) ds show ?thesis by (simp del: rmatch.simps)
qed

lemma exec_head: "rmatch re (m @ r) = r # xs \<Longrightarrow> exec re (m @ r) = Some m"
  by (simp add: exec.simps [of re "m @ r"])

lemma vMajorOf_digits_dot:
  assumes "ds \<noteq> []" and "\<forall>c \<in> set ds. isDigit c"
  shows "vMajorOf (ds @ ''.'' @ rest) = Some (toNumber ds)"
proof -
  from rmatch_plus_digits [OF assms, of "''.'' @ rest"]
  obtain xs where "rmatch (Plus Digit) (ds @ ''.'' @ rest) = (''.'' @ rest) # xs"
    by (auto simp: isDigit_def)
  then have "\<exists>ys. rmatch reMajor (ds @ ''.'' @ rest) = (''.'' @ rest) # ys"
    by (simp only: reMajor_def rmatch.simps(4) rmatch.simps(6)) simp
  then show ?thesis
    using exec_head [of reMajor ds "''.'' @ rest"] by (auto simp: vMajorOf_def)
qed

lemma baseVersionOf_digits_dot_digits:
  assumes "ds \<noteq> []" and "\<forall>c \<in> set ds. isDigit c"
    and "es \<noteq> []" and "\<forall>c \<in> set es. isDigit c"
    and "case r of [] \<Rightarrow> True | c # _ \<Rightarrow> \<not> isDigit c"
  shows "baseVersionOf (ds @ ''.'' @ es @ r) = Some (ds @ ''.'' @ es)"
proof -
  from rmatch_plus_digits [OF assms(1,2), of "''.'' @ es @ r"]
  obtain xs where xs: "rmatch (Plus Digit) (ds @ ''.'' @ es @ r) = (''.'' @ es @ r) # xs"
    by (auto simp: isDigit_def)
  from rmatch_plus_digits [OF assms(3,4,5)]
  obtain ys where ys: "rmatch (Plus Digit) (es @ r) = r # ys"
    by blast
  have inner: "\<exists>zs. rmatch (Seq (Plus Digit) (Star (Ahead (Lit CHR ''.'')))) (es @ r) = r # zs"
    using ys by (simp only: rmatch.simps(4) [of "Plus Digit"] rmatch_star_ahead) simp
  have "\<exists>zs. rmatch (Seq (Lit CHR ''.'') (Seq (Plus Digit) (Star (Ahead (Lit CHR ''.'')))))
      (''.'' @ es @ r) = r # zs"
    using inner by (simp only: rmatch.simps(4) [of "Lit CHR ''.''"] rmatch.simps(1)) simp
  then have "\<exists>zs. rmatch reBase (ds @ ''.'' @ es @ r) = r # zs"
    using xs by (simp only: reBase_def rmatch.simps(4) [of "Plus Digit" _ "ds @ ''.'' @ es @ r"]) auto
  then obtain zs where "rmatch reBase ((ds @ ''.'' @ es) @ r) = r # zs"
    by auto
  from exec_head [OF this] show ?thesis
    by (simp add: baseVersionOf_def)
qed

section \<open>Evaluation of the sample values\<close>

lemma samplePlatform_fields:
  "path_normalize (samplePlatform a l k) p = p"
  "path_join (samplePlatform a l k) x y = x @ ''/'' @ y"
  "path_extname (samplePlatform a l k) = sampleExtname"
  "isWebUri (samplePlatform a l k) u = (startsWith u ''http://'' \<or> startsWith u ''https://'')"
  "env_SYSTEM_DEFAULTWORKINGDIRECTORY (samplePlatform a l k) = Some ''/work''"
  "tl_exist (samplePlatform a l k) w p = (p \<in> set w)"
  "fs_existsSync (samplePlatform a l k) w p = (p \<in> set w)"
  "tl_which (samplePlatform a l k) w t = l"
  "execOcSync (samplePlatform a l k) w p line =
     Some \<lparr>stdout = Some ''Client Version: v3.11.0'', stderr = None\<rparr>"
  "fetch_head (samplePlatform a l k) None = Inl ''Only absolute URLs are supported''"
  "fetch_head (samplePlatform a l k) (Some u) = Inr (u \<in> set k)"
  "tl_mkdirP (samplePlatform a l k) d w = (None, d # w)"
  "tool_exec (samplePlatform a l k) t args w =
     (None, (if 2 \<le> length args then [args ! (length args - 2)] else []) @ w)"
  "unzipArchive (samplePlatform a l k) ty ap d w = (None, map (\<lambda>f. d @ ''/'' @ f) a @ w)"
  "fs_chmodSync (samplePlatform a l k) p m w = (None, w)"
  by (simp_all add: samplePlatform_def)

lemma vMajorOf_v3_11_0: "vMajorOf (stripV ''v3.11.0'') = Some 3"
  by code_simp

lemma vMajorOf_4_11: "vMajorOf (stripV ''4.11'') = Some 4"
  by code_simp

lemma vMajorOf_5_1_0: "vMajorOf (stripV ''5.1.0'') = Some 5"
  by code_simp

lemma vMajorOf_3_11: "vMajorOf (stripV ''3.11'') = Some 3"
  by code_simp

lemma vMajorOf_4_1_0: "vMajorOf ''4.1.0'' = Some 4"
  by code_simp

lemma vMajorOf_stripped: "vMajorOf ''3.11.0'' = Some 3" "vMajorOf ''4.11'' = Some 4"
  by code_simp+

lemma baseVersionOf_3: "baseVersionOf (stripV ''3'') = None"
  by code_simp

lemma baseVersionOf_3_17: "baseVersionOf (stripV ''3.17'') = Some ''3.17''"
  by code_simp

lemma baseVersionOf_3_11: "baseVersionOf (stripV ''3.11'') = Some ''3.11''"
  by code_simp

lemma stripV_samples:
  "stripV ''v3.11.0'' = ''3.11.0''" "stripV ''4.11'' = ''4.11''" "stripV ''3.11'' = ''3.11''"
  by (simp_all add: stripV_def startsWith_def)

lemma archiveOf_linux:
  "archiveOf ''https://mirror.example/v3/clients/3.11.0/linux/oc.tar.gz'' = ''oc.tar.gz''"
  by code_simp

lemma archiveOf_windows:
  "archiveOf ''https://mirror.example/v3/clients/3.11.0/windows/oc.zip'' = ''oc.zip''"
  by code_simp

lemma archiveTypeOf_tar_gz: "archiveTypeOf (samplePlatform a l k) ''oc.tar.gz'' = ''.tar.gz''"
  by (simp add: archiveTypeOf_def samplePlatform_fields sampleExtname_def replaceFirst.simps
      startsWith_def)

lemma archiveTypeOf_zip: "archiveTypeOf (samplePlatform a l k) ''oc.zip'' = ''.zip''"
  by (simp add: archiveTypeOf_def samplePlatform_fields sampleExtname_def replaceFirst.simps
      startsWith_def)

lemma getOcVersion_sample:
  "getOcVersion (samplePlatform a l k) ''/usr/bin/oc'' s =
     (Some ''v3.11.0'',
      s\<lparr>trace := trace s @ [ExecOcSync ''/usr/bin/oc'' ''version --short=true --client=true'']\<rparr>)"
proof -
  have "exec reVersion ''Client Version: v3.11.0'' = Some ''v3.11.0''"
    by code_simp
  then show ?thesis
    by (simp add: getOcVersion_def query_def samplePlatform_fields truthy_def)
qed

lemma toLowerCase_v3_11_0: "toLowerCase ''v3.11.0'' = ''v3.11.0''"
  by code_simp

lemma ocBundleURL_sample_v3_11:
  "ocBundleURL sampleUtils sampleConstants ''v3.11'' ''Linux'' False =
     Some ''https://mirror.example/v3/clients/3.11/linux/oc.tar.gz''"
  by code_simp

lemma ocBundleURL_sample_v3_11_latest:
  "ocBundleURL sampleUtils sampleConstants ''v3.11'' ''Linux'' True =
     Some ''https://mirror.example/v3/clients/3.11.153/linux/oc.tar.gz''"
  by code_simp

lemma archiveOf_linux_latest:
  "archiveOf ''https://mirror.example/v3/clients/3.11.153/linux/oc.tar.gz'' = ''oc.tar.gz''"
  by code_simp

lemma installOc_sample_run:
  "installOc (samplePlatform [''oc''] None []) sampleUtils sampleConstants ''v3.11'' ''Linux''
     True [] \<lparr>world = [''/work/.download''], trace = []\<rparr>
   = (Resolved ''/work/.download/oc'',
      \<lparr>world = [''/work/.download/oc'', ''/work/.download/oc.tar.gz'', ''/work/.download''],
       trace =
         [Which ''oc'', ExistsSync ''/work/.download'',
          OcBundleURL ''v3.11'' ''Linux'' False,
          FetchHead (Some ''https://mirror.example/v3/clients/3.11/linux/oc.tar.gz''),
          OcBundleURL ''v3.11'' ''Linux'' True,
          Exist ''/work/.download'', Exist ''/work/.download/oc.tar.gz'',
          ToolExec ''curl''
            [''-s'', ''-L'', ''-o'', ''/work/.download/oc.tar.gz'',
             ''https://mirror.example/v3/clients/3.11.153/linux/oc.tar.gz''],
          UnzipArchive ''.tar.gz'' ''/work/.download/oc.tar.gz'' ''/work/.download'',
          Exist ''/work/.download/oc'',
          ChmodSync ''/work/.download/oc'' ''0755'']\<rparr>)"
  by (simp add: installOc_def getLocalOcPath_def determineUrl_def downloadAndExtract_def
      query_def effect_def Let_def samplePlatform_fields truthy_def tpl_def startsWith_def
      ocBundleURL_sample_v3_11 ocBundleURL_sample_v3_11_latest archiveOf_linux_latest
      archiveTypeOf_tar_gz curlArgs_def ocBinaryName_def)

section \<open>Traces of the install flow\<close>

lemma urlEvents_append: "urlEvents (a @ b) = urlEvents a @ urlEvents b"
  by (simp add: urlEvents_def)

lemma urlEvents_list:
  "urlEvents [] = []"
  "urlEvents (e # es) = (if isUrlEvent e then e # urlEvents es else urlEvents es)"
  by (simp_all add: urlEvents_def)

lemma downloadAndExtract_urlEvents:
  "urlEvents (trace (snd (downloadAndExtract P url d osType proxy s))) = urlEvents (trace s)"
  by (simp add: downloadAndExtract_def Let_def query_def effect_def urlEvents_append
      urlEvents_list split: prod.splits option.splits)

lemma getOcVersion_state:
  "urlEvents (trace (snd (getOcVersion P p s))) = urlEvents (trace s)"
  "world (snd (getOcVersion P p s)) = world s"
  by (simp_all add: getOcVersion_def query_def urlEvents_append urlEvents_list
      split: prod.splits option.splits)

lemma getLocalOcPath_state:
  "urlEvents (trace (snd (getLocalOcPath P v s))) = urlEvents (trace s)"
  "world (snd (getLocalOcPath P v s)) = world s"
proof -
  obtain r s2 where g: "getOcVersion P (the (tl_which P (world s) ''oc''))
      (s\<lparr>trace := trace s @ [Which ''oc'']\<rparr>) = (r, s2)"
    by (cases "getOcVersion P (the (tl_which P (world s) ''oc''))
      (s\<lparr>trace := trace s @ [Which ''oc'']\<rparr>)")
  have "urlEvents (trace s2) = urlEvents (trace s)" "world s2 = world s"
    using getOcVersion_state [of P "the (tl_which P (world s) ''oc'')"
        "s\<lparr>trace := trace s @ [Which ''oc'']\<rparr>"] g
    by (simp_all add: urlEvents_append urlEvents_list)
  with g show "urlEvents (trace (snd (getLocalOcPath P v s))) = urlEvents (trace s)"
    "world (snd (getLocalOcPath P v s)) = world s"
    by (auto simp: getLocalOcPath_def query_def urlEvents_append urlEvents_list truthy_def
        split: prod.splits option.splits if_splits)
qed

lemma toolEvents_append: "toolEvents (a @ b) = toolEvents a @ toolEvents b"
  by (simp add: toolEvents_def)

lemma toolEvents_list:
  "toolEvents [] = []"
  "toolEvents (e # es) = (if isToolExec e then e # toolEvents es else toolEvents es)"
  by (simp_all add: toolEvents_def)

lemma downloadAndExtract_toolEvents:
  "toolEvents (trace (snd (downloadAndExtract P url d osType proxy s))) = toolEvents (trace s)
   \<or> toolEvents (trace (snd (downloadAndExtract P url d osType proxy s))) =
       toolEvents (trace s) @ [ToolExec ''curl'' (curlArgs proxy (archivePathOf P d url) url)]"
  by (simp add: downloadAndExtract_def Let_def query_def effect_def toolEvents_append
      toolEvents_list split: prod.splits option.splits)

lemma getOcVersion_toolEvents:
  "toolEvents (trace (snd (getOcVersion P p s))) = toolEvents (trace s)"
  by (simp add: getOcVersion_def query_def toolEvents_append toolEvents_list
      split: prod.splits option.splits)

lemma getLocalOcPath_toolEvents:
  "toolEvents (trace (snd (getLocalOcPath P v s))) = toolEvents (trace s)"
proof -
  obtain r s2 where g: "getOcVersion P (the (tl_which P (world s) ''oc''))
      (s\<lparr>trace := trace s @ [Which ''oc'']\<rparr>) = (r, s2)"
    by (cases "getOcVersion P (the (tl_which P (world s) ''oc''))
      (s\<lparr>trace := trace s @ [Which ''oc'']\<rparr>)")
  have "toolEvents (trace s2) = toolEvents (trace s)"
    using getOcVersion_toolEvents [of P "the (tl_which P (world s) ''oc'')"
        "s\<lparr>trace := trace s @ [Which ''oc'']\<rparr>"] g
    by (simp add: toolEvents_append toolEvents_list)
  with g show ?thesis
    by (auto simp: getLocalOcPath_def query_def toolEvents_append toolEvents_list truthy_def
        split: prod.splits option.splits if_splits)
qed

lemma determineUrl_candidate:
  assumes "\<not> isWebUri P v" and "ocBundleURL U C v osType False = Some cand"
  shows "determineUrl P U C v osType s =
     (case fetch_head P (Some cand) of
        Inl e \<Rightarrow>
          (Rejected e, s\<lparr>trace := trace s @ [OcBundleURL v osType False, FetchHead (Some cand)]\<rparr>)
      | Inr ok \<Rightarrow>
          if ok
          then (Resolved (Some cand),
                s\<lparr>trace := trace s @ [OcBundleURL v osType False, FetchHead (Some cand)]\<rparr>)
          else (Resolved (ocBundleURL U C v osType True),
                s\<lparr>trace := trace s @ [OcBundleURL v osType False, FetchHead (Some cand),
                                         OcBundleURL v osType True]\<rparr>))"
  using assms
  by (simp add: determineUrl_def query_def split: sum.splits)

lemma installOc_reaches_url:
  assumes local: "\<not> useLocalOc \<or> truthy (fst (getLocalOcPath P v s)) = None"
    and v: "v \<noteq> []"
    and dir: "fs_existsSync P (world s) (downloadDirOf P)
              \<or> fst (tl_mkdirP P (downloadDirOf P) (world s)) = None"
  shows "\<exists>s3. urlEvents (trace s3) = urlEvents (trace s)
           \<and> toolEvents (trace s3) = toolEvents (trace s)
           \<and> installOc P U C v osType useLocalOc proxy s =
      (case determineUrl P U C v osType s3 of
         (Rejected e, s4) \<Rightarrow> (Rejected e, s4)
       | (Resolved None, s4) \<Rightarrow> (Rejected ''Unable to determine oc download URL.'', s4)
       | (Resolved (Some url), s4) \<Rightarrow>
           (case downloadAndExtract P url (downloadDirOf P) osType proxy s4 of
              (Rejected e, s5) \<Rightarrow> (Rejected e, s5)
            | (Resolved None, s5) \<Rightarrow>
                (Rejected ''Unable to download or extract oc binary.'', s5)
            | (Resolved (Some ocBinary), s5) \<Rightarrow> (Resolved ocBinary, s5)))"
proof -
  obtain lp s1 where l: "(if useLocalOc then getLocalOcPath P v s else (None, s)) = (lp, s1)"
    by (cases "if useLocalOc then getLocalOcPath P v s else (None, s)")
  have lp: "truthy lp = None"
    using l local by (auto simp: truthy_def split: if_splits)
  have s1: "urlEvents (trace s1) = urlEvents (trace s)" "world s1 = world s"
    "toolEvents (trace s1) = toolEvents (trace s)"
    using l getLocalOcPath_state [of P v s] getLocalOcPath_toolEvents [of P v s]
    by (auto split: if_splits)
  obtain err s3 where m: "(if \<not> fs_existsSync P (world s1) (downloadDirOf P)
        then effect (MkdirP (downloadDirOf P)) (tl_mkdirP P (downloadDirOf P))
               (s1\<lparr>trace := trace s1 @ [ExistsSync (downloadDirOf P)]\<rparr>)
        else (None, s1\<lparr>trace := trace s1 @ [ExistsSync (downloadDirOf P)]\<rparr>)) = (err, s3)"
    by (cases "if \<not> fs_existsSync P (world s1) (downloadDirOf P)
        then effect (MkdirP (downloadDirOf P)) (tl_mkdirP P (downloadDirOf P))
               (s1\<lparr>trace := trace s1 @ [ExistsSync (downloadDirOf P)]\<rparr>)
        else (None, s1\<lparr>trace := trace s1 @ [ExistsSync (downloadDirOf P)]\<rparr>)")
  have err: "err = None"
    using m dir s1(2) by (auto simp: effect_def split: if_splits prod.splits)
  have s3: "urlEvents (trace s3) = urlEvents (trace s)"
    using m s1(1) by (auto simp: effect_def urlEvents_append urlEvents_list
        split: if_splits prod.splits)
  have t3: "toolEvents (trace s3) = toolEvents (trace s)"
    using m s1(3) by (auto simp: effect_def toolEvents_append toolEvents_list
        split: if_splits prod.splits)
  have "installOc P U C v osType useLocalOc proxy s =
      (case determineUrl P U C v osType s3 of
         (Rejected e, s4) \<Rightarrow> (Rejected e, s4)
       | (Resolved None, s4) \<Rightarrow> (Rejected ''Unable to determine oc download URL.'', s4)
       | (Resolved (Some url), s4) \<Rightarrow>
           (case downloadAndExtract P url (downloadDirOf P) osType proxy s4 of
              (Rejected e, s5) \<Rightarrow> (Rejected e, s5)
            | (Resolved None, s5) \<Rightarrow>
                (Rejected ''Unable to download or extract oc binary.'', s5)
            | (Resolved (Some ocBinary), s5) \<Rightarrow> (Resolved ocBinary, s5)))"
    using l lp v m err by (simp add: installOc_def Let_def query_def)
  with s3 t3 show ?thesis by blast
qed

lemma install_from_url_events:
  "urlEvents (trace (snd (case downloadAndExtract P url d osType proxy s4 of
        (Rejected e, s5) \<Rightarrow> (Rejected e, s5)
      | (Resolved None, s5) \<Rightarrow> (Rejected ''Unable to download or extract oc binary.'', s5)
      | (Resolved (Some ocBinary), s5) \<Rightarrow> (Resolved ocBinary, s5)))) = urlEvents (trace s4)"
  "toolEvents (trace (snd (case downloadAndExtract P url d osType proxy s4 of
        (Rejected e, s5) \<Rightarrow> (Rejected e, s5)
      | (Resolved None, s5) \<Rightarrow> (Rejected ''Unable to download or extract oc binary.'', s5)
      | (Resolved (Some ocBinary), s5) \<Rightarrow> (Resolved ocBinary, s5)))) =
   toolEvents (trace (snd (downloadAndExtract P url d osType proxy s4)))"
proof -
  obtain o5 s5 where d: "downloadAndExtract P url d osType proxy s4 = (o5, s5)"
    by (cases "downloadAndExtract P url d osType proxy s4")
  have "urlEvents (trace s5) = urlEvents (trace s4)"
    using downloadAndExtract_urlEvents [of P url d osType proxy s4] d by simp
  with d show "urlEvents (trace (snd (case downloadAndExtract P url d osType proxy s4 of
        (Rejected e, s5) \<Rightarrow> (Rejected e, s5)
      | (Resolved None, s5) \<Rightarrow> (Rejected ''Unable to download or extract oc binary.'', s5)
      | (Resolved (Some ocBinary), s5) \<Rightarrow> (Resolved ocBinary, s5)))) = urlEvents (trace s4)"
    by (simp split: outcome.splits option.splits)
  from d show "toolEvents (trace (snd (case downloadAndExtract P url d osType proxy s4 of
        (Rejected e, s5) \<Rightarrow> (Rejected e, s5)
      | (Resolved None, s5) \<Rightarrow> (Rejected ''Unable to download or extract oc binary.'', s5)
      | (Resolved (Some ocBinary), s5) \<Rightarrow> (Resolved ocBinary, s5)))) =
   toolEvents (trace (snd (downloadAndExtract P url d osType proxy s4)))"
    by (simp split: outcome.splits option.splits)
qed

lemma bundle_recognized:
  "osType \<in> {''Linux'', ''Darwin'', ''Windows_NT''} \<Longrightarrow>
     \<exists>b. getOcBundleByOS C osType = Some b \<and> truthy (getOcBundleByOS C osType) = Some b"
  by (auto simp: getOcBundleByOS_def truthy_def)

lemma vMajorOf_nonempty: "vMajorOf (stripV version) \<noteq> None \<Longrightarrow> version \<noteq> []"
  by (auto simp: stripV_def vMajorOf_def startsWith_def exec.simps reMajor_def Plus_def)

section \<open>Version resolution: the claims\<close>

text \<open>
  C1. For a recognized OS type and a version whose major version, extracted after a
  leading \<open>v\<close> has been removed (the leftmost match of \<open>\d+(?=\.)\<close>, which for a
  version that starts with digits and a dot is the number of these digits, see
  \<open>vMajorOf_digits_dot\<close>), is 3 (or 4), \<open>ocBundleURL\<close> without \<open>latest\<close>
  returns the version-3 (or version-4) base URL, \<open>/\<close>, the version without its
  leading \<open>v\<close>, \<open>/\<close> and the bundle path of the OS. In particular \<open>v3.11.0\<close> on
  Linux gives the version-3 base URL followed by \<open>/3.11.0/\<close> and the Linux bundle
  path, and \<open>4.11\<close> gives the version-4 base URL followed by \<open>/4.11/\<close> and the
  same bundle path, which is \<open>linux/oc.tar.gz\<close> for the constants of the tests.
\<close>

theorem ocBundleURL_major_3_or_4:
  assumes os: "osType \<in> {''Linux'', ''Darwin'', ''Windows_NT''}"
  shows "(vMajorOf (stripV version) = Some 3 \<longrightarrow>
            (\<exists>bundle. getOcBundleByOS C osType = Some bundle \<and>
               ocBundleURL U C version osType False =
                 Some (openshiftV3BaseUrl U @ ''/'' @ stripV version @ ''/'' @ bundle)))
       \<and> (vMajorOf (stripV version) = Some 4 \<longrightarrow>
            (\<exists>bundle. getOcBundleByOS C osType = Some bundle \<and>
               ocBundleURL U C version osType False =
                 Some (openshiftV4BaseUrl U @ ''/'' @ stripV version @ ''/'' @ bundle)))
       \<and> ocBundleURL U C ''v3.11.0'' ''Linux'' False =
           Some (openshiftV3BaseUrl U @ ''/3.11.0/'' @ LINUX C @ ''/'' @ OC_TAR_GZ C)
       \<and> ocBundleURL U C ''4.11'' ''Linux'' False =
           Some (openshiftV4BaseUrl U @ ''/4.11/'' @ LINUX C @ ''/'' @ OC_TAR_GZ C)
       \<and> (LINUX C = ''linux'' \<and> OC_TAR_GZ C = ''oc.tar.gz'' \<longrightarrow>
            ocBundleURL U C ''v3.11.0'' ''Linux'' False =
              Some (openshiftV3BaseUrl U @ ''/3.11.0/linux/oc.tar.gz'')
            \<and> ocBundleURL U C ''4.11'' ''Linux'' False =
              Some (openshiftV4BaseUrl U @ ''/4.11/linux/oc.tar.gz''))"
proof -
  have general: "vMajorOf (stripV v) = Some m \<Longrightarrow> m = 3 \<or> m = 4 \<Longrightarrow>
      getOcBundleByOS C os' = Some b \<Longrightarrow> truthy (getOcBundleByOS C os') = Some b \<Longrightarrow>
      ocBundleURL U C v os' False =
        Some ((if m = 3 then openshiftV3BaseUrl U else openshiftV4BaseUrl U)
              @ ''/'' @ stripV v @ ''/'' @ b)" for v m os' b
    using vMajorOf_nonempty [of v] by (auto simp: ocBundleURL_def Let_def)
  obtain b where b: "getOcBundleByOS C osType = Some b" "truthy (getOcBundleByOS C osType) = Some b"
    using bundle_recognized [OF os] by blast
  have linux: "getOcBundleByOS C ''Linux'' = Some (LINUX C @ ''/'' @ OC_TAR_GZ C)"
    "truthy (getOcBundleByOS C ''Linux'') = Some (LINUX C @ ''/'' @ OC_TAR_GZ C)"
    by (simp_all add: getOcBundleByOS_def truthy_def)
  have three: "vMajorOf (stripV version) = Some 3 \<longrightarrow>
      (\<exists>bundle. getOcBundleByOS C osType = Some bundle \<and>
         ocBundleURL U C version osType False =
           Some (openshiftV3BaseUrl U @ ''/'' @ stripV version @ ''/'' @ bundle))"
    using general [of version 3 osType b] b by simp
  have four: "vMajorOf (stripV version) = Some 4 \<longrightarrow>
      (\<exists>bundle. getOcBundleByOS C osType = Some bundle \<and>
         ocBundleURL U C version osType False =
           Some (openshiftV4BaseUrl U @ ''/'' @ stripV version @ ''/'' @ bundle))"
    using general [of version 4 osType b] b by simp
  have ex3: "ocBundleURL U C ''v3.11.0'' ''Linux'' False =
      Some (openshiftV3BaseUrl U @ ''/3.11.0/'' @ LINUX C @ ''/'' @ OC_TAR_GZ C)"
    using general [OF vMajorOf_v3_11_0 _ linux] by (simp add: stripV_samples)
  have ex4: "ocBundleURL U C ''4.11'' ''Linux'' False =
      Some (openshiftV4BaseUrl U @ ''/4.11/'' @ LINUX C @ ''/'' @ OC_TAR_GZ C)"
    using general [OF vMajorOf_4_11 _ linux] by (simp add: stripV_samples)
  from three four ex3 ex4 show ?thesis by simp
qed

theorem ocBundleURL_major_3_or_4_witness:
  "''Linux'' \<in> {''Linux'', ''Darwin'', ''Windows_NT''}
   \<and> vMajorOf (stripV ''v3.11.0'') = Some 3
   \<and> ocBundleURL sampleUtils sampleConstants ''v3.11.0'' ''Linux'' False =
       Some ''https://mirror.example/v3/clients/3.11.0/linux/oc.tar.gz''
   \<and> ''Windows_NT'' \<in> {''Linux'', ''Darwin'', ''Windows_NT''}
   \<and> vMajorOf (stripV ''4.11'') = Some 4
   \<and> ocBundleURL sampleUtils sampleConstants ''4.11'' ''Windows_NT'' False =
       Some ''https://mirror.example/v4/clients/oc/4.11/windows/oc.zip''
   \<and> LINUX sampleConstants = ''linux'' \<and> OC_TAR_GZ sampleConstants = ''oc.tar.gz''
   \<and> ocBundleURL sampleUtils sampleConstants ''4.11'' ''Linux'' False =
       Some ''https://mirror.example/v4/clients/oc/4.11/linux/oc.tar.gz''"
  using ocBundleURL_major_3_or_4 [of "''Linux''" "''v3.11.0''" sampleConstants sampleUtils]
    ocBundleURL_major_3_or_4 [of "''Windows_NT''" "''4.11''" sampleConstants sampleUtils]
  by (simp add: vMajorOf_stripped stripV_samples getOcBundleByOS_def
      sampleConstants_def sampleUtils_def openshiftV3BaseUrl_def openshiftV4BaseUrl_def tpl_def)

text \<open>
  C4. With \<open>latest\<close> set, \<open>ocBundleURL\<close> returns \<open>null\<close> for every version from
  which the code extracts no \<open>major.minor\<close> (the leftmost match of
  \<open>\d+\.\d+(?=\.)*\<close> after the leading \<open>v\<close> has been removed), and for every
  version whose \<open>major.minor\<close> has no entry \<open>oc<major.minor>\<close> in the table. The
  version \<open>3\<close> is one from which no \<open>major.minor\<close> is extracted, as is every
  version without a dot (\<open>exec_no_dot\<close>).
\<close>

theorem ocBundleURL_latest_unknown_line:
  "(baseVersionOf (stripV version) = None
      \<or> (\<exists>b. baseVersionOf (stripV version) = Some b \<and> U (''oc'' @ b) = None)
    \<longrightarrow> ocBundleURL U C version osType True = None)
   \<and> baseVersionOf (stripV ''3'') = None
   \<and> ocBundleURL U C ''3'' ''Linux'' True = None"
proof -
  have general: "baseVersionOf (stripV v) = None
      \<or> (\<exists>b. baseVersionOf (stripV v) = Some b \<and> U (''oc'' @ b) = None)
    \<Longrightarrow> ocBundleURL U C v os' True = None" for v os'
    by (auto simp: ocBundleURL_def Let_def latestPatch_def truthy_def split: option.splits)
  from general [of version osType] general [of "''3''" "''Linux''"] baseVersionOf_3
  show ?thesis by blast
qed

theorem ocBundleURL_latest_unknown_line_witness:
  "baseVersionOf (stripV ''3'') = None
   \<and> ocBundleURL sampleUtils sampleConstants ''3'' ''Linux'' True = None
   \<and> baseVersionOf (stripV ''3.17'') = Some ''3.17''
   \<and> sampleUtils (''oc'' @ ''3.17'') = None
   \<and> ocBundleURL sampleUtils sampleConstants ''3.17'' ''Linux'' True = None"
  using ocBundleURL_latest_unknown_line [of "''3''" sampleUtils sampleConstants "''Linux''"]
    ocBundleURL_latest_unknown_line [of "''3.17''" sampleUtils sampleConstants "''Linux''"]
  by (simp add: baseVersionOf_3 baseVersionOf_3_17 sampleUtils_def)

text \<open>
  C5. \<open>ocBundleURL\<close> returns \<open>null\<close>, with or without \<open>latest\<close>, for every version
  whose extracted major version is neither 3 nor 4 (or is not found at all);
  \<open>5.1.0\<close> on Linux is such a case.
\<close>

theorem ocBundleURL_unsupported_major:
  "(vMajorOf (stripV version) \<noteq> Some 3 \<and> vMajorOf (stripV version) \<noteq> Some 4
    \<longrightarrow> ocBundleURL U C version osType latest = None)
   \<and> vMajorOf (stripV ''5.1.0'') = Some 5
   \<and> ocBundleURL U C ''5.1.0'' ''Linux'' False = None"
proof -
  have general: "vMajorOf (stripV v) \<noteq> Some 3 \<Longrightarrow> vMajorOf (stripV v) \<noteq> Some 4
    \<Longrightarrow> ocBundleURL U C v os' l = None" for v os' l
    by (auto simp: ocBundleURL_def Let_def split: option.splits)
  from general [of version osType latest] general [of "''5.1.0''" "''Linux''" False]
    vMajorOf_5_1_0
  show ?thesis by simp
qed

theorem ocBundleURL_unsupported_major_witness:
  "vMajorOf (stripV ''5.1.0'') \<noteq> Some 3 \<and> vMajorOf (stripV ''5.1.0'') \<noteq> Some 4
   \<and> ocBundleURL sampleUtils sampleConstants ''5.1.0'' ''Linux'' True = None"
  using ocBundleURL_unsupported_major [of "''5.1.0''" sampleUtils sampleConstants "''Linux''" True]
  by (simp add: vMajorOf_5_1_0)

text \<open>
  C8. \<open>getOcBundleByOS\<close> returns \<open>null\<close> for every OS type other than \<open>Linux\<close>,
  \<open>Darwin\<close> and \<open>Windows_NT\<close>, and for these three the relative bundle path made of
  the directory of the OS, \<open>/\<close> and the archive name.
\<close>

theorem getOcBundleByOS_table:
  "(osType \<notin> {''Linux'', ''Darwin'', ''Windows_NT''} \<longrightarrow> getOcBundleByOS C osType = None)
   \<and> getOcBundleByOS C ''Linux'' = Some (LINUX C @ ''/'' @ OC_TAR_GZ C)
   \<and> getOcBundleByOS C ''Darwin'' = Some (MACOSX C @ ''/'' @ OC_TAR_GZ C)
   \<and> getOcBundleByOS C ''Windows_NT'' = Some (WIN C @ ''/'' @ OC_ZIP C)"
  by (simp add: getOcBundleByOS_def)

theorem getOcBundleByOS_table_witness:
  "''fakeOS'' \<notin> {''Linux'', ''Darwin'', ''Windows_NT''}
   \<and> getOcBundleByOS sampleConstants ''fakeOS'' = None
   \<and> getOcBundleByOS sampleConstants ''Linux'' = Some ''linux/oc.tar.gz''
   \<and> getOcBundleByOS sampleConstants ''Darwin'' = Some ''macosx/oc.tar.gz''
   \<and> getOcBundleByOS sampleConstants ''Windows_NT'' = Some ''windows/oc.zip''"
  using getOcBundleByOS_table [of "''fakeOS''" sampleConstants]
  by (simp add: sampleConstants_def)

text \<open>
  C10. Whenever \<open>ocBundleURL\<close> returns a URL, with or without \<open>latest\<close>, the base
  URL is chosen by the major version extracted from the version the caller passed:
  the URL is the version-3 base URL if that major version is 3 and the version-4
  base URL if it is 4, followed by the version that goes into the URL, which with
  \<open>latest\<close> is the entry of the table. The entry itself plays no part in the
  choice, whatever its own major version is.
\<close>

theorem ocBundleURL_base_from_requested_major:
  "ocBundleURL U C version osType latest = Some url \<Longrightarrow>
     \<exists>version' bundle.
       (if latest then latestPatch U (stripV version) else Some (stripV version)) = Some version'
       \<and> getOcBundleByOS C osType = Some bundle
       \<and> (vMajorOf (stripV version) = Some 3
            \<and> url = openshiftV3BaseUrl U @ ''/'' @ version' @ ''/'' @ bundle
          \<or> vMajorOf (stripV version) = Some 4
            \<and> url = openshiftV4BaseUrl U @ ''/'' @ version' @ ''/'' @ bundle)"
  by (auto simp: ocBundleURL_def Let_def truthy_def split: option.splits if_splits)

theorem ocBundleURL_base_from_requested_major_witness:
  "ocBundleURL (sampleUtils(''oc3.11'' \<mapsto> ''4.1.0'')) sampleConstants ''3.11'' ''Linux'' True =
     Some ''https://mirror.example/v3/clients/4.1.0/linux/oc.tar.gz''
   \<and> latestPatch (sampleUtils(''oc3.11'' \<mapsto> ''4.1.0'')) (stripV ''3.11'') = Some ''4.1.0''
   \<and> vMajorOf (stripV ''3.11'') = Some 3
   \<and> vMajorOf ''4.1.0'' = Some 4"
proof -
  have url: "ocBundleURL (sampleUtils(''oc3.11'' \<mapsto> ''4.1.0'')) sampleConstants ''3.11''
      ''Linux'' True = Some ''https://mirror.example/v3/clients/4.1.0/linux/oc.tar.gz''"
    by (simp add: ocBundleURL_def Let_def vMajorOf_3_11 latestPatch_def baseVersionOf_3_11
        truthy_def getOcBundleByOS_def sampleConstants_def sampleUtils_def
        openshiftV3BaseUrl_def tpl_def)
  have patch: "latestPatch (sampleUtils(''oc3.11'' \<mapsto> ''4.1.0'')) (stripV ''3.11'') =
      Some ''4.1.0''"
    by (simp add: latestPatch_def baseVersionOf_3_11 truthy_def)
  from ocBundleURL_base_from_requested_major [OF url] url patch show ?thesis
    by (simp add: vMajorOf_3_11 vMajorOf_4_1_0)
qed

section \<open>Download and extraction: the claims\<close>

text \<open>
  C7. With an empty URL \<open>downloadAndExtract\<close> resolves to \<open>null\<close> for every
  directory, OS type and proxy, and leaves the agent as it was: the file system is
  unchanged and no call is added to the trace, so nothing was checked, downloaded
  or extracted.
\<close>

theorem downloadAndExtract_empty_url:
  "downloadAndExtract P [] downloadDir osType proxy s = (Resolved None, s)"
  by (simp add: downloadAndExtract_def)

text \<open>
  C6. With a URL that is not empty and a normalized download directory that does
  not exist, \<open>downloadAndExtract\<close> rejects with the message
  \<open><dir> does not exist.\<close>; the file system is unchanged (the directory is not
  created) and the one call added to the trace is the existence check of the
  directory: \<open>curl\<close> is not run and nothing is extracted.
\<close>

theorem downloadAndExtract_missing_dir:
  assumes "url \<noteq> []"
    and "\<not> tl_exist P (world s) (path_normalize P downloadDir)"
  shows "downloadAndExtract P url downloadDir osType proxy s =
           (Rejected (path_normalize P downloadDir @ '' does not exist.''),
            s\<lparr>trace := trace s @ [Exist (path_normalize P downloadDir)]\<rparr>)"
  using assms by (simp add: downloadAndExtract_def Let_def query_def)

theorem downloadAndExtract_missing_dir_witness:
  "''https://mirror.example/v3/clients/3.11.0/linux/oc.tar.gz'' \<noteq> []
   \<and> \<not> tl_exist (samplePlatform [''oc''] None []) (world \<lparr>world = [], trace = []\<rparr>)
         (path_normalize (samplePlatform [''oc''] None []) ''/nowhere'')
   \<and> downloadAndExtract (samplePlatform [''oc''] None [])
        ''https://mirror.example/v3/clients/3.11.0/linux/oc.tar.gz'' ''/nowhere'' ''Linux'' []
        \<lparr>world = [], trace = []\<rparr>
      = (Rejected ''/nowhere does not exist.'', \<lparr>world = [], trace = [Exist ''/nowhere'']\<rparr>)"
  using downloadAndExtract_missing_dir
    [of "''https://mirror.example/v3/clients/3.11.0/linux/oc.tar.gz''"
      "samplePlatform [''oc''] None []" "\<lparr>world = [], trace = []\<rparr>" "''/nowhere''"
      "''Linux''" "[]"]
  by (simp add: samplePlatform_fields)

text \<open>
  C2, as the code has it. When the download directory exists, the archive is there
  or \<open>curl\<close> fetches it, the extraction succeeds and the expected executable
  (\<open>oc.exe\<close> for \<open>Windows_NT\<close>, \<open>oc\<close> otherwise) then exists in the directory,
  \<open>downloadAndExtract\<close> calls \<open>fs.chmodSync\<close> with mode \<open>0755\<close> on that file as
  its last action and, the call succeeding, resolves to the path of the file. This
  holds for every OS type, \<open>Windows_NT\<close> included: the code has no branch that
  skips the permission change.
\<close>

theorem downloadAndExtract_chmod_then_path:
  assumes url: "url \<noteq> []"
    and dir: "tl_exist P (world s) (path_normalize P downloadDir)"
    and dl: "if tl_exist P (world s) (archivePathOf P downloadDir url)
             then dl = [] \<and> w1 = world s
             else dl = [ToolExec ''curl'' (curlArgs proxy (archivePathOf P downloadDir url) url)]
               \<and> tool_exec P ''curl'' (curlArgs proxy (archivePathOf P downloadDir url) url)
                    (world s) = (None, w1)"
    and unz: "unzipArchive P (archiveTypeOf P (archiveOf url)) (archivePathOf P downloadDir url)
                (path_normalize P downloadDir) w1 = (None, w2)"
    and bin: "tl_exist P w2 (ocBinaryOf P downloadDir osType)"
    and chm: "fs_chmodSync P (ocBinaryOf P downloadDir osType) ''0755'' w2 = (None, w3)"
  shows "downloadAndExtract P url downloadDir osType proxy s =
           (Resolved (Some (ocBinaryOf P downloadDir osType)),
            \<lparr>world = w3,
             trace = trace s
               @ [Exist (path_normalize P downloadDir), Exist (archivePathOf P downloadDir url)]
               @ dl
               @ [UnzipArchive (archiveTypeOf P (archiveOf url)) (archivePathOf P downloadDir url)
                    (path_normalize P downloadDir),
                  Exist (ocBinaryOf P downloadDir osType),
                  ChmodSync (ocBinaryOf P downloadDir osType) ''0755'']\<rparr>)"
proof (cases "tl_exist P (world s) (archivePathOf P downloadDir url)")
  case True
  with dl have "dl = []" "w1 = world s"
    by simp_all
  with True url dir unz bin chm show ?thesis
    by (simp add: downloadAndExtract_def Let_def query_def effect_def)
next
  case False
  with dl have "dl = [ToolExec ''curl'' (curlArgs proxy (archivePathOf P downloadDir url) url)]"
    "tool_exec P ''curl'' (curlArgs proxy (archivePathOf P downloadDir url) url) (world s)
       = (None, w1)"
    by simp_all
  with False url dir unz bin chm show ?thesis
    by (simp add: downloadAndExtract_def Let_def query_def effect_def)
qed

theorem downloadAndExtract_chmod_then_path_witness:
  "''https://mirror.example/v3/clients/3.11.0/linux/oc.tar.gz'' \<noteq> []
   \<and> tl_exist (samplePlatform [''oc''] None []) [''/work/.download''] ''/work/.download''
   \<and> \<not> tl_exist (samplePlatform [''oc''] None []) [''/work/.download'']
         ''/work/.download/oc.tar.gz''
   \<and> tool_exec (samplePlatform [''oc''] None []) ''curl''
        [''-s'', ''-L'', ''-o'', ''/work/.download/oc.tar.gz'',
         ''https://mirror.example/v3/clients/3.11.0/linux/oc.tar.gz'']
        [''/work/.download'']
      = (None, [''/work/.download/oc.tar.gz'', ''/work/.download''])
   \<and> unzipArchive (samplePlatform [''oc''] None []) ''.tar.gz'' ''/work/.download/oc.tar.gz''
        ''/work/.download'' [''/work/.download/oc.tar.gz'', ''/work/.download'']
      = (None, [''/work/.download/oc'', ''/work/.download/oc.tar.gz'', ''/work/.download''])
   \<and> tl_exist (samplePlatform [''oc''] None [])
        [''/work/.download/oc'', ''/work/.download/oc.tar.gz'', ''/work/.download'']
        ''/work/.download/oc''
   \<and> fs_chmodSync (samplePlatform [''oc''] None []) ''/work/.download/oc'' ''0755''
        [''/work/.download/oc'', ''/work/.download/oc.tar.gz'', ''/work/.download'']
      = (None, [''/work/.download/oc'', ''/work/.download/oc.tar.gz'', ''/work/.download''])
   \<and> downloadAndExtract (samplePlatform [''oc''] None [])
        ''https://mirror.example/v3/clients/3.11.0/linux/oc.tar.gz'' ''/work/.download''
        ''Linux'' [] \<lparr>world = [''/work/.download''], trace = []\<rparr>
      = (Resolved (Some ''/work/.download/oc''),
         \<lparr>world = [''/work/.download/oc'', ''/work/.download/oc.tar.gz'', ''/work/.download''],
          trace =
            [Exist ''/work/.download'', Exist ''/work/.download/oc.tar.gz'',
             ToolExec ''curl''
               [''-s'', ''-L'', ''-o'', ''/work/.download/oc.tar.gz'',
                ''https://mirror.example/v3/clients/3.11.0/linux/oc.tar.gz''],
             UnzipArchive ''.tar.gz'' ''/work/.download/oc.tar.gz'' ''/work/.download'',
             Exist ''/work/.download/oc'',
             ChmodSync ''/work/.download/oc'' ''0755'']\<rparr>)"
  using downloadAndExtract_chmod_then_path
    [of "''https://mirror.example/v3/clients/3.11.0/linux/oc.tar.gz''"
      "samplePlatform [''oc''] None []" "\<lparr>world = [''/work/.download''], trace = []\<rparr>"
      "''/work/.download''"
      "[ToolExec ''curl'' [''-s'', ''-L'', ''-o'', ''/work/.download/oc.tar.gz'',
          ''https://mirror.example/v3/clients/3.11.0/linux/oc.tar.gz'']]"
      "[''/work/.download/oc.tar.gz'', ''/work/.download'']" "[]"
      "[''/work/.download/oc'', ''/work/.download/oc.tar.gz'', ''/work/.download'']"
      "''Linux''"
      "[''/work/.download/oc'', ''/work/.download/oc.tar.gz'', ''/work/.download'']"]
  by (simp add: samplePlatform_fields archiveOf_linux archiveTypeOf_tar_gz curlArgs_def
      ocBinaryName_def)

text \<open>
  The claim C2 as stated also says that no permission change is made for
  \<open>Windows_NT\<close>. On the sample agent, with an archive that holds \<open>oc.exe\<close>, the
  run for \<open>Windows_NT\<close> ends with the call \<open>fs.chmodSync(ocBinary, '0755')\<close>.
\<close>

theorem downloadAndExtract_chmod_on_windows:
  "downloadAndExtract (samplePlatform [''oc.exe''] None [])
     ''https://mirror.example/v3/clients/3.11.0/windows/oc.zip'' ''/work/.download''
     ''Windows_NT'' [] \<lparr>world = [''/work/.download''], trace = []\<rparr>
   = (Resolved (Some ''/work/.download/oc.exe''),
      \<lparr>world = [''/work/.download/oc.exe'', ''/work/.download/oc.zip'', ''/work/.download''],
       trace =
         [Exist ''/work/.download'', Exist ''/work/.download/oc.zip'',
          ToolExec ''curl''
            [''-s'', ''-L'', ''-o'', ''/work/.download/oc.zip'',
             ''https://mirror.example/v3/clients/3.11.0/windows/oc.zip''],
          UnzipArchive ''.zip'' ''/work/.download/oc.zip'' ''/work/.download'',
          Exist ''/work/.download/oc.exe'',
          ChmodSync ''/work/.download/oc.exe'' ''0755'']\<rparr>)"
  by (simp add: downloadAndExtract_def Let_def query_def effect_def samplePlatform_fields
      archiveOf_windows archiveTypeOf_zip curlArgs_def ocBinaryName_def)

section \<open>Installation: the claims\<close>

text \<open>
  C3, as the code has it. When \<open>installOc\<close> reaches the choice of the URL (no
  local \<open>oc\<close> is returned, the version is not empty, and the download directory
  exists or is created) with a version that is not a web URI and for which
  \<open>ocBundleURL\<close> without \<open>latest\<close> returns a URL, it calls \<open>ocBundleURL\<close>
  without \<open>latest\<close> and sends one HEAD probe to that URL; it calls \<open>ocBundleURL\<close>
  with \<open>latest\<close>, once, if and only if the probe comes back with a response that
  is not OK. These are all the calls of \<open>ocBundleURL\<close> and all the probes of the
  whole run, and \<open>curl\<close> is run at most once, for the URL so chosen (the candidate
  after an OK response, the fallback otherwise): nothing is retried.
\<close>

theorem installOc_one_probe_one_fallback:
  assumes local: "\<not> useLocalOc \<or> truthy (fst (getLocalOcPath P v s)) = None"
    and v: "v \<noteq> []"
    and uri: "\<not> isWebUri P v"
    and dir: "fs_existsSync P (world s) (downloadDirOf P)
              \<or> fst (tl_mkdirP P (downloadDirOf P) (world s)) = None"
    and cand: "ocBundleURL U C v osType False = Some cand"
  shows "urlEvents (trace (snd (installOc P U C v osType useLocalOc proxy s))) =
           urlEvents (trace s)
             @ [OcBundleURL v osType False, FetchHead (Some cand)]
             @ (if fetch_head P (Some cand) = Inr False
                then [OcBundleURL v osType True] else [])
         \<and> (toolEvents (trace (snd (installOc P U C v osType useLocalOc proxy s))) =
               toolEvents (trace s)
             \<or> (\<exists>url. (if fetch_head P (Some cand) = Inr False
                        then ocBundleURL U C v osType True else Some cand) = Some url
                  \<and> toolEvents (trace (snd (installOc P U C v osType useLocalOc proxy s))) =
                      toolEvents (trace s)
                        @ [ToolExec ''curl''
                             (curlArgs proxy (archivePathOf P (downloadDirOf P) url) url)]))"
proof -
  from installOc_reaches_url [OF local v dir, of U C osType proxy]
  obtain s3 where s3: "urlEvents (trace s3) = urlEvents (trace s)"
    "toolEvents (trace s3) = toolEvents (trace s)"
    and run: "installOc P U C v osType useLocalOc proxy s =
      (case determineUrl P U C v osType s3 of
         (Rejected e, s4) \<Rightarrow> (Rejected e, s4)
       | (Resolved None, s4) \<Rightarrow> (Rejected ''Unable to determine oc download URL.'', s4)
       | (Resolved (Some url), s4) \<Rightarrow>
           (case downloadAndExtract P url (downloadDirOf P) osType proxy s4 of
              (Rejected e, s5) \<Rightarrow> (Rejected e, s5)
            | (Resolved None, s5) \<Rightarrow>
                (Rejected ''Unable to download or extract oc binary.'', s5)
            | (Resolved (Some ocBinary), s5) \<Rightarrow> (Resolved ocBinary, s5)))"
    by blast
  note det = determineUrl_candidate [OF uri cand, of s3]
  show ?thesis
  proof (cases "fetch_head P (Some cand)")
    case (Inl e)
    with run det s3 show ?thesis
      by (simp add: urlEvents_append urlEvents_list toolEvents_append toolEvents_list)
  next
    case (Inr ok)
    define url where "url = (if ok then Some cand else ocBundleURL U C v osType True)"
    define s4 where "s4 = (if ok
        then s3\<lparr>trace := trace s3 @ [OcBundleURL v osType False, FetchHead (Some cand)]\<rparr>
        else s3\<lparr>trace := trace s3 @ [OcBundleURL v osType False, FetchHead (Some cand),
                                      OcBundleURL v osType True]\<rparr>)"
    have d: "determineUrl P U C v osType s3 = (Resolved url, s4)"
      using det Inr by (simp add: url_def s4_def)
    have u4: "urlEvents (trace s4) = urlEvents (trace s)
        @ [OcBundleURL v osType False, FetchHead (Some cand)]
        @ (if fetch_head P (Some cand) = Inr False then [OcBundleURL v osType True] else [])"
      using s3 Inr by (simp add: s4_def urlEvents_append urlEvents_list)
    have t4: "toolEvents (trace s4) = toolEvents (trace s)"
      using s3 by (simp add: s4_def toolEvents_append toolEvents_list)
    have chosen: "(if fetch_head P (Some cand) = Inr False
        then ocBundleURL U C v osType True else Some cand) = url"
      using Inr by (simp add: url_def)
    show ?thesis
    proof (cases url)
      case None
      with run d u4 t4 show ?thesis by simp
    next
      case (Some u)
      have r: "installOc P U C v osType useLocalOc proxy s =
          (case downloadAndExtract P u (downloadDirOf P) osType proxy s4 of
              (Rejected e, s5) \<Rightarrow> (Rejected e, s5)
            | (Resolved None, s5) \<Rightarrow>
                (Rejected ''Unable to download or extract oc binary.'', s5)
            | (Resolved (Some ocBinary), s5) \<Rightarrow> (Resolved ocBinary, s5))"
        using run d Some by simp
      have a: "urlEvents (trace (snd (installOc P U C v osType useLocalOc proxy s))) =
          urlEvents (trace s4)"
        by (simp only: r install_from_url_events)
      have b: "toolEvents (trace (snd (installOc P U C v osType useLocalOc proxy s))) =
          toolEvents (trace (snd (downloadAndExtract P u (downloadDirOf P) osType proxy s4)))"
        by (simp only: r install_from_url_events)
      from downloadAndExtract_toolEvents [of P u "downloadDirOf P" osType proxy s4] t4
      have c: "toolEvents (trace (snd (downloadAndExtract P u (downloadDirOf P) osType proxy s4))) =
            toolEvents (trace s)
          \<or> toolEvents (trace (snd (downloadAndExtract P u (downloadDirOf P) osType proxy s4))) =
            toolEvents (trace s)
              @ [ToolExec ''curl'' (curlArgs proxy (archivePathOf P (downloadDirOf P) u) u)]"
        by simp
      from a b c u4 chosen Some show ?thesis
        by (simp only:) blast
    qed
  qed
qed

theorem installOc_one_probe_one_fallback_witness:
  "truthy (fst (getLocalOcPath (samplePlatform [''oc''] None []) ''v3.11''
      \<lparr>world = [''/work/.download''], trace = []\<rparr>)) = None
   \<and> ''v3.11'' \<noteq> []
   \<and> \<not> isWebUri (samplePlatform [''oc''] None []) ''v3.11''
   \<and> fs_existsSync (samplePlatform [''oc''] None [])
        (world \<lparr>world = [''/work/.download''], trace = []\<rparr>)
        (downloadDirOf (samplePlatform [''oc''] None []))
   \<and> ocBundleURL sampleUtils sampleConstants ''v3.11'' ''Linux'' False =
        Some ''https://mirror.example/v3/clients/3.11/linux/oc.tar.gz''
   \<and> fetch_head (samplePlatform [''oc''] None [])
        (Some ''https://mirror.example/v3/clients/3.11/linux/oc.tar.gz'') = Inr False
   \<and> ocBundleURL sampleUtils sampleConstants ''v3.11'' ''Linux'' True =
        Some ''https://mirror.example/v3/clients/3.11.153/linux/oc.tar.gz''
   \<and> urlEvents (trace (snd (installOc (samplePlatform [''oc''] None []) sampleUtils
        sampleConstants ''v3.11'' ''Linux'' True [] \<lparr>world = [''/work/.download''], trace = []\<rparr>)))
      = [OcBundleURL ''v3.11'' ''Linux'' False,
         FetchHead (Some ''https://mirror.example/v3/clients/3.11/linux/oc.tar.gz''),
         OcBundleURL ''v3.11'' ''Linux'' True]
   \<and> toolEvents (trace (snd (installOc (samplePlatform [''oc''] None []) sampleUtils
        sampleConstants ''v3.11'' ''Linux'' True [] \<lparr>world = [''/work/.download''], trace = []\<rparr>)))
      = [ToolExec ''curl''
           [''-s'', ''-L'', ''-o'', ''/work/.download/oc.tar.gz'',
            ''https://mirror.example/v3/clients/3.11.153/linux/oc.tar.gz'']]"
proof -
  have local: "truthy (fst (getLocalOcPath (samplePlatform [''oc''] None []) ''v3.11''
      \<lparr>world = [''/work/.download''], trace = []\<rparr>)) = None"
    by (simp add: getLocalOcPath_def query_def samplePlatform_fields truthy_def)
  have dir: "fs_existsSync (samplePlatform [''oc''] None [])
      (world \<lparr>world = [''/work/.download''], trace = []\<rparr>)
      (downloadDirOf (samplePlatform [''oc''] None []))"
    by (simp add: samplePlatform_fields tpl_def)
  have uri: "\<not> isWebUri (samplePlatform [''oc''] None []) ''v3.11''"
    by (simp add: samplePlatform_fields startsWith_def)
  have tools: "toolEvents (trace (snd (installOc (samplePlatform [''oc''] None []) sampleUtils
        sampleConstants ''v3.11'' ''Linux'' True [] \<lparr>world = [''/work/.download''], trace = []\<rparr>)))
      = [ToolExec ''curl''
           [''-s'', ''-L'', ''-o'', ''/work/.download/oc.tar.gz'',
            ''https://mirror.example/v3/clients/3.11.153/linux/oc.tar.gz'']]"
    by (simp add: installOc_sample_run toolEvents_list)
  from installOc_one_probe_one_fallback [of True "samplePlatform [''oc''] None []" "''v3.11''"
      "\<lparr>world = [''/work/.download''], trace = []\<rparr>" sampleUtils sampleConstants "''Linux''"
      "''https://mirror.example/v3/clients/3.11/linux/oc.tar.gz''" "[]"]
    local dir uri ocBundleURL_sample_v3_11
  have "urlEvents (trace (snd (installOc (samplePlatform [''oc''] None []) sampleUtils
        sampleConstants ''v3.11'' ''Linux'' True [] \<lparr>world = [''/work/.download''], trace = []\<rparr>)))
      = [OcBundleURL ''v3.11'' ''Linux'' False,
         FetchHead (Some ''https://mirror.example/v3/clients/3.11/linux/oc.tar.gz''),
         OcBundleURL ''v3.11'' ''Linux'' True]"
    by (simp add: samplePlatform_fields urlEvents_list)
  with local dir uri tools show ?thesis
    by (simp add: ocBundleURL_sample_v3_11 ocBundleURL_sample_v3_11_latest samplePlatform_fields)
qed

text \<open>
  The claim C3 as stated has the probe whenever the version is not a web URI. With
  \<open>useLocalOc\<close> set and a local \<open>oc\<close> of the requested version \<open>v3.11.0\<close>, which
  is not a web URI, \<open>installOc\<close> returns the local path: \<open>ocBundleURL\<close> is not
  called and no probe is sent.
\<close>

theorem installOc_local_oc_no_probe:
  "\<not> isWebUri (samplePlatform [''oc''] (Some ''/usr/bin/oc'') []) ''v3.11.0''
   \<and> installOc (samplePlatform [''oc''] (Some ''/usr/bin/oc'') []) sampleUtils sampleConstants
        ''v3.11.0'' ''Linux'' True [] \<lparr>world = [], trace = []\<rparr>
      = (Resolved ''/usr/bin/oc'',
         \<lparr>world = [],
          trace = [Which ''oc'',
                   ExecOcSync ''/usr/bin/oc'' ''version --short=true --client=true'']\<rparr>)"
  by (simp add: installOc_def getLocalOcPath_def query_def samplePlatform_fields truthy_def
      getOcVersion_sample toLowerCase_v3_11_0 startsWith_def)

section \<open>The ConfigMap patch command: the claim\<close>

text \<open>
  C9. For the ConfigMap built from the name \<open>foo\<close> and an empty properties line,
  \<open>patchCmd\<close> with an empty namespace is exactly
  \<open>patch configmap foo -p '{"data":{}}'\<close>; and for every ConfigMap without pairs
  the \<open>data\<close> object of the payload is empty, whatever the name and the namespace.
\<close>

theorem patchCmd_no_properties:
  \<open>patchCmd interpolate (newConfigMap ''foo'' []) [] =
      ''patch configmap foo -p \'{"data":{}}'' @ [CHR 0x27]
   \<and> (properties cm = [] \<longrightarrow>
        patchCmd interpolate cm namespace =
          ''patch configmap '' @ name cm @ '' -p \'{"data":{}}'' @ [CHR 0x27]
            @ (if namespace = [] then [] else '' -n '' @ namespace))\<close>
  by (simp add: patchCmd_def newConfigMap_def tokenize_def)

theorem patchCmd_no_properties_witness:
  \<open>properties (newConfigMap ''foo'' []) = []
   \<and> patchCmd (\<lambda>v. v) (newConfigMap ''foo'' []) ''my-space'' =
       ''patch configmap foo -p \'{"data":{}}\' -n my-space''\<close>
  using patchCmd_no_properties [of "\<lambda>v. v" "newConfigMap ''foo'' []" "''my-space''"]
  by (simp add: newConfigMap_def tokenize_def)

end
